theory Spec2Isabelle
  imports Main "HOL-Library.AList"
begin

text \<open>
  A model of \<open>src/index.js\<close> of join-monster: \<open>compileSqlAST\<close>,
  \<open>handleUserDbCall\<close>, \<open>validate\<close>, \<open>joinMonster\<close> and \<open>getNode\<close>. Each function
  of the file is a function here, from the world it starts in to its result and the
  world it leaves. A throw is a result, a promise is what it settles to, and every call
  out of the file is recorded in a trace. The modules the file imports (the SQL AST
  builder, the alias namespace, the stringifiers, the shape builder, the post-processor,
  the hydration library) are not part of the source at hand; they are parameters.
\<close>

section \<open>JavaScript values\<close>

text \<open>
  The values \<open>src/index.js\<close> handles: what the transport returns, rows, shape
  definitions, the SQL AST, the context. A promise is an object whose state is what it
  eventually settles to. Every object carries its own (named) properties; an array also
  has its elements. Numbers are restricted to integers. Function-valued properties are
  not represented: the only functions \<open>index.js\<close> looks up on a value are
  \<open>then\<close>, \<open>slice\<close> and \<open>toLowerCase\<close>, modelled below.
\<close>

datatype 'a settle = Fulfils 'a | Rejects 'a | NeverSettles

datatype jsval =
    JUndefined
  | JNull
  | JBool bool
  | JNum int
  | JStr string
  | JObject objkind "(string \<times> jsval) list"
and objkind =
    Plain
  | Array "jsval list"
  | Promise "jsval settle"
  | ErrorObj string jsval

text \<open>
  \<open>ErrorObj name about\<close> is an instance of the error class \<open>name\<close>; \<open>about\<close> is the
  value its message reports. A thrown value is any \<open>jsval\<close>; a computation that may
  throw returns \<open>jsval + 'a\<close>, \<open>Inl\<close> the thrown value.
\<close>

definition new_Error :: "jsval \<Rightarrow> jsval" where
  "new_Error about = JObject (ErrorObj ''Error'' about) []"

definition TypeError :: "string \<Rightarrow> jsval" where
  "TypeError what = JObject (ErrorObj ''TypeError'' (JStr what)) []"

text \<open>Truthiness, as \<open>if (v)\<close>, \<open>!v\<close>, \<open>a && b\<close> and \<open>a || b\<close> read a value.\<close>

fun truthy :: "jsval \<Rightarrow> bool" where
  "truthy JUndefined = False"
| "truthy JNull = False"
| "truthy (JBool b) = b"
| "truthy (JNum n) = (n \<noteq> 0)"
| "truthy (JStr s) = (s \<noteq> [])"
| "truthy (JObject k ps) = True"

fun nullish :: "jsval \<Rightarrow> bool" where
  "nullish JUndefined = True"
| "nullish JNull = True"
| "nullish v = False"

text \<open>\<open>Array.isArray(v)\<close>.\<close>

fun isArray :: "jsval \<Rightarrow> bool" where
  "isArray (JObject (Array xs) ps) = True"
| "isArray v = False"

text \<open>
  \<open>v.key\<close> for a value that is neither \<open>null\<close> nor \<open>undefined\<close> and a key that no
  prototype defines (\<open>rows\<close>, \<open>name\<close>): the object's own property, \<open>undefined\<close> when
  it has none and on a primitive.
\<close>

fun own_prop :: "jsval \<Rightarrow> string \<Rightarrow> jsval" where
  "own_prop (JObject k ps) key = (case map_of ps key of Some v \<Rightarrow> v | None \<Rightarrow> JUndefined)"
| "own_prop v key = JUndefined"

text \<open>
  \<open>typeof v.then === 'function'\<close> for a value that is neither \<open>null\<close> nor
  \<open>undefined\<close>: a promise has \<open>then\<close> from its prototype, unless an own property
  of that name (which holds no function here) shadows it.
\<close>

fun thenable :: "jsval \<Rightarrow> bool" where
  "thenable (JObject (Promise s) ps) = (map_of ps ''then'' = None)"
| "thenable v = False"

text \<open>
  \<open>promise_state p\<close> is what the promise \<open>p\<close> settles to; it is only read where
  \<open>thenable p\<close> holds. \<open>resolve_with v\<close> is what a promise resolved with \<open>v\<close>
  settles to (\<open>resolve(v)\<close>, \<open>Promise.resolve(v)\<close>, the value a \<open>then\<close> callback
  returns): the state of \<open>v\<close> when \<open>v\<close> is itself a promise, fulfilled with \<open>v\<close>
  otherwise.
\<close>

fun promise_state :: "jsval \<Rightarrow> jsval settle" where
  "promise_state (JObject (Promise s) ps) = s"
| "promise_state v = NeverSettles"

fun resolve_with :: "jsval \<Rightarrow> jsval settle" where
  "resolve_with (JObject (Promise s) ps) =
     (if map_of ps ''then'' = None then s else Fulfils (JObject (Promise s) ps))"
| "resolve_with v = Fulfils v"

section \<open>Row validation\<close>

text \<open>
  \<^verbatim>\<open>
  function validate(rows) {
    if (Array.isArray(rows)) return rows
    else if (rows && rows.rows) return rows.rows
    else {
      throw new Error(`"dbCall" function must return/resolve an array of objects ...
        Instead got ${util.inspect(rows, { depth: 3 })}`)
    }
  }
  \<close>
\<close>

definition validate :: "jsval \<Rightarrow> jsval + jsval" where
  "validate rows =
     (if isArray rows then Inr rows
      else if truthy rows \<and> truthy (own_prop rows ''rows'') then Inr (own_prop rows ''rows'')
      else Inl (new_Error rows))"

text \<open>
  The arguments of the two \<open>debug\<close> calls that follow validation,
  \<open>inspect(rows.slice(0, 8))\<close> and \<open>rows.length\<close>, are evaluated whether or not the
  log is enabled: \<open>rows.slice\<close> has to be callable. It is on an array and on a string
  (unless an own property \<open>slice\<close> of the array shadows the method); on any other
  validated value the call throws a \<open>TypeError\<close>. Logging itself has no effect.
\<close>

fun debug_rows :: "jsval \<Rightarrow> jsval + unit" where
  "debug_rows (JStr s) = Inr ()"
| "debug_rows (JObject (Array xs) ps) =
     (if map_of ps ''slice'' = None then Inr () else Inl (TypeError ''rows.slice is not a function''))"
| "debug_rows v = Inl (TypeError ''rows.slice is not a function'')"

text \<open>
  \<open>v[0]\<close>: a \<open>TypeError\<close> on \<open>null\<close> and \<open>undefined\<close>, the first element of an
  array, the first character of a string, the own property \<open>0\<close> of another object.
\<close>

fun index0 :: "jsval \<Rightarrow> jsval + jsval" where
  "index0 JUndefined = Inl (TypeError ''Cannot read property 0 of undefined'')"
| "index0 JNull = Inl (TypeError ''Cannot read property 0 of null'')"
| "index0 (JStr s) = Inr (case s of [] \<Rightarrow> JUndefined | c # cs \<Rightarrow> JStr [c])"
| "index0 (JObject (Array xs) ps) = Inr (case xs of [] \<Rightarrow> JUndefined | x # ys \<Rightarrow> x)"
| "index0 (JObject k ps) = Inr (own_prop (JObject k ps) ''0'')"
| "index0 v = Inr JUndefined"

text \<open>
  \<open>obj.key = v\<close> in strict code (the file is an ES module): a \<open>TypeError\<close> on
  \<open>null\<close>, \<open>undefined\<close> and every primitive; on an object the property is
  replaced where it stands, or added last.
\<close>

fun set_prop :: "jsval \<Rightarrow> string \<Rightarrow> jsval \<Rightarrow> jsval + jsval" where
  "set_prop (JObject k ps) key v = Inr (JObject k (AList.update key v ps))"
| "set_prop JUndefined key v = Inl (TypeError ''Cannot set property of undefined'')"
| "set_prop JNull key v = Inl (TypeError ''Cannot set property of null'')"
| "set_prop p key v = Inl (TypeError ''Cannot create property on a primitive'')"

text \<open>
  \<open>s.toLowerCase()\<close> on the letters a GraphQL name can hold
  (\<open>[_A-Za-z][_0-9A-Za-z]*\<close>).
\<close>

definition lower_char :: "char \<Rightarrow> char" where
  "lower_char c =
     (case map_of (zip ''ABCDEFGHIJKLMNOPQRSTUVWXYZ'' ''abcdefghijklmnopqrstuvwxyz'') c of
        Some l \<Rightarrow> l
      | None \<Rightarrow> c)"

definition toLowerCase :: "string \<Rightarrow> string" where
  "toLowerCase s = map lower_char s"

text \<open>
  \<open>t.name\<close> for a value that is neither \<open>null\<close> nor \<open>undefined\<close>: an error
  object has the name of its class unless an own property shadows it.
\<close>

fun name_of :: "jsval \<Rightarrow> jsval" where
  "name_of (JObject (ErrorObj n about) ps) =
     (case map_of ps ''name'' of Some v \<Rightarrow> v | None \<Rightarrow> JStr n)"
| "name_of v = own_prop v ''name''"

text \<open>\<open>type.name.toLowerCase()\<close>.\<close>

definition lowered_name :: "jsval \<Rightarrow> jsval + string" where
  "lowered_name gqlType =
     (if nullish gqlType then Inl (TypeError ''Cannot read property name of undefined'')
      else case name_of gqlType of
             JStr s \<Rightarrow> Inr (toLowerCase s)
           | JUndefined \<Rightarrow> Inl (TypeError ''Cannot read property toLowerCase of undefined'')
           | JNull \<Rightarrow> Inl (TypeError ''Cannot read property toLowerCase of null'')
           | v \<Rightarrow> Inl (TypeError ''type.name.toLowerCase is not a function''))"

section \<open>The world outside one call\<close>

text \<open>
  What a call can touch beyond its arguments: the objects allocated so far (an object's
  address is its position), Node's module cache, and the calls made out of
  \<open>index.js\<close> so far, oldest first. The trace is what the claims about order and about
  "never invoked" are stated on.
\<close>

datatype event =
    Call_queryASTToSqlAST
  | Call_getGraphQLType nat nat
  | Call_pruneDuplicateSqlDeps nat nat
  | Call_require string
  | Call_stringify
  | Call_defineObjectShape
  | Call_dbCall string
  | Call_validate jsval
  | Call_nest jsval
  | Call_postProcess jsval
  | Uncaught jsval

record world =
  heap :: "jsval list"
  required :: "string list"
  trace :: "event list"

definition emit :: "event \<Rightarrow> world \<Rightarrow> world" where
  "emit e w = w\<lparr>trace := trace w @ [e]\<rparr>"

definition alloc :: "jsval \<Rightarrow> world \<Rightarrow> nat \<times> world" where
  "alloc v w = (length (heap w), w\<lparr>heap := heap w @ [v]\<rparr>)"

definition deref :: "world \<Rightarrow> nat \<Rightarrow> jsval" where
  "deref w a = (if a < length (heap w) then heap w ! a else JUndefined)"

definition store :: "nat \<Rightarrow> jsval \<Rightarrow> world \<Rightarrow> world" where
  "store a v w = w\<lparr>heap := (heap w)[a := v]\<rparr>"

section \<open>Arguments and collaborators\<close>

text \<open>
  \<open>options\<close>: \<open>minify\<close> is handed on as it is; \<open>dialect\<close> is a string when
  present (\<open>@param {String} options.dialect\<close>). A missing \<open>options\<close> argument
  defaults to \<open>{}\<close>.
\<close>

record options =
  minify :: jsval
  dialect :: "string option"

definition empty_options :: options where
  "empty_options = \<lparr>minify = JUndefined, dialect = None\<rparr>"

definition given_or_empty :: "options option \<Rightarrow> options" where
  "given_or_empty options = (case options of None \<Rightarrow> empty_options | Some given \<Rightarrow> given)"

text \<open>The fields of \<open>resolveInfo\<close> that \<open>getNode\<close> reads.\<close>

record resolveInfo =
  schema_getType :: "string \<Rightarrow> jsval"
  fieldNodes :: jsval
  fieldASTs :: jsval
  fragments :: jsval
  variables :: jsval

text \<open>
  A \<open>where\<close> generator: \<open>where(tableAlias, args, context)\<close> returns the condition
  or throws. \<open>fakeParentNode\<close> is \<open>{ _fields: { node: { type, name, where } } }\<close>.
\<close>

type_synonym where_fn = "string \<Rightarrow> jsval \<Rightarrow> jsval \<Rightarrow> jsval + string"

record fakeParentNode =
  node_type :: jsval
  node_name :: string
  node_where :: where_fn

text \<open>
  A stringifier, \<open>stringify(sqlAST, context)\<close>: the SQL text, or what it (or a
  condition generator it invokes) throws. A module is its \<open>default\<close> export, if it has
  one.
\<close>

type_synonym stringifier = "jsval \<Rightarrow> jsval \<Rightarrow> jsval + string"

record jsmodule =
  default_export :: "stringifier option"

text \<open>
  The code \<open>index.js\<close> imports, none of it under \<open>src/\<close>, enters as parameters:
  \<^item> \<open>modules\<close>: what \<open>require(path)\<close> resolves to, \<open>None\<close> when Node finds no
    module for the path;
  \<^item> \<open>queryASTToSqlAST(resolveInfo, options)\<close>: the SQL AST, or a throw;
  \<^item> \<open>new AliasNamespace(minify)\<close>: the state of the new instance;
  \<^item> \<open>getGraphQLType(fieldNode, parent, sqlAST, fragments, variables, namespace,
    options)\<close> and \<open>pruneDuplicateSqlDeps(sqlAST, namespace)\<close>: they return nothing and
    mutate the two objects they are given, so each maps the states of
    \<open>(sqlAST, namespace)\<close> to their new states, or throws;
  \<^item> \<open>defineObjectShape(sqlAST)\<close>, \<open>nest(rows, shapeDefinition)\<close> and
    \<open>postProcess(nested, sqlAST)\<close>: a value, or a throw.
\<close>

record collaborators =
  modules :: "string \<Rightarrow> jsmodule option"
  queryASTToSqlAST :: "resolveInfo \<Rightarrow> options \<Rightarrow> jsval + jsval"
  new_AliasNamespace :: "jsval \<Rightarrow> jsval"
  getGraphQLType ::
    "jsval \<Rightarrow> fakeParentNode \<Rightarrow> jsval \<Rightarrow> jsval \<Rightarrow> options \<Rightarrow> jsval \<times> jsval \<Rightarrow> jsval + jsval \<times> jsval"
  pruneDuplicateSqlDeps :: "jsval \<times> jsval \<Rightarrow> jsval + jsval \<times> jsval"
  defineObjectShape :: "jsval \<Rightarrow> jsval + jsval"
  nest :: "jsval \<Rightarrow> jsval \<Rightarrow> jsval + jsval"
  postProcess :: "jsval \<Rightarrow> jsval \<Rightarrow> jsval + jsval"

text \<open>
  The transport. \<open>arity\<close> is \<open>dbCall.length\<close>. Called as \<open>dbCall(sql, done)\<close> it
  throws before using \<open>done\<close>, or invokes \<open>done(err, rows)\<close> once before it returns
  (letting what \<open>done\<close> throws pass through), or invokes it once from a later task, or
  never invokes it. Called as \<open>dbCall(sql)\<close> it returns a value or throws.
\<close>

datatype done_use =
    ThrowsFirst jsval
  | DoneNow jsval jsval
  | DoneLater jsval jsval
  | DoneNever

record dbCall =
  arity :: nat
  with_done :: "string \<Rightarrow> done_use"
  without_done :: "string \<Rightarrow> jsval + jsval"

text \<open>What a call gives its caller: a throw, or a promise as it eventually settles.\<close>

datatype outcome = Throws jsval | Returns "jsval settle"

section \<open>compileSqlAST\<close>

text \<open>
  \<open>require(path)\<close>: Node throws an \<open>Error\<close> with code \<open>MODULE_NOT_FOUND\<close> when
  nothing resolves; a module that loads enters the module cache.
\<close>

definition module_not_found :: "string \<Rightarrow> jsval" where
  "module_not_found path =
     JObject (ErrorObj ''Error'' (JStr path)) [(''code'', JStr ''MODULE_NOT_FOUND'')]"

definition require :: "collaborators \<Rightarrow> string \<Rightarrow> world \<Rightarrow> (jsval + jsmodule) \<times> world" where
  "require C path w =
     (let w1 = emit (Call_require path) w in
      case modules C path of
        None \<Rightarrow> (Inl (module_not_found path), w1)
      | Some m \<Rightarrow> (Inr m, w1\<lparr>required := List.insert path (required w1)\<rparr>))"

text \<open>
  \<open>options.dialect || 'standard'\<close>: the empty string is the one falsy string.
\<close>

definition dialect_or_standard :: "options \<Rightarrow> string" where
  "dialect_or_standard opts =
     (case dialect opts of
        None \<Rightarrow> ''standard''
      | Some d \<Rightarrow> if d = [] then ''standard'' else d)"

text \<open>
  \<^verbatim>\<open>
  function compileSqlAST(sqlAST, context, options) {
    const dialect = options.dialect || 'standard'
    const stringify = require('./stringifiers/' + dialect).default
    const sql = stringify(sqlAST, context)
    const shapeDefinition = defineObjectShape(sqlAST)
    return { sql, shapeDefinition }
  }
  \<close>
  (the \<open>debug\<close> lines, which only log, left out). Calling a missing \<open>default\<close> export
  is a \<open>TypeError\<close>.
\<close>

definition compileSqlAST ::
  "collaborators \<Rightarrow> jsval \<Rightarrow> jsval \<Rightarrow> options \<Rightarrow> world \<Rightarrow> (jsval + string \<times> jsval) \<times> world" where
  "compileSqlAST C sqlAST ctx opts w =
     (case require C (''./stringifiers/'' @ dialect_or_standard opts) w of
        (Inl e, w1) \<Rightarrow> (Inl e, w1)
      | (Inr m, w1) \<Rightarrow>
          (case default_export m of
             None \<Rightarrow> (Inl (TypeError ''stringify is not a function''), w1)
           | Some stringify \<Rightarrow>
               (let w2 = emit Call_stringify w1 in
                case stringify sqlAST ctx of
                  Inl e \<Rightarrow> (Inl e, w2)
                | Inr sql \<Rightarrow>
                    (let w3 = emit Call_defineObjectShape w2 in
                     case defineObjectShape C sqlAST of
                       Inl e \<Rightarrow> (Inl e, w3)
                     | Inr shapeDefinition \<Rightarrow> (Inr (sql, shapeDefinition), w3)))))"

section \<open>handleUserDbCall\<close>

text \<open>
  What both the \<open>done\<close> callback (when \<open>err\<close> is falsy) and the \<open>then\<close> callback do
  with the rows they receive; the source writes it out twice:
  \<^verbatim>\<open>
      rows = validate(rows)
      debug(emphasize('RAW_DATA'), inspect(rows.slice(0, 8)))
      debug(`${rows.length} rows...`)
      const nested = nest(rows, shapeDefinition)
      ... postProcess(nested, sqlAST)
  \<close>
\<close>

definition rows_callback ::
  "collaborators \<Rightarrow> jsval \<Rightarrow> jsval \<Rightarrow> jsval \<Rightarrow> world \<Rightarrow> (jsval + jsval) \<times> world" where
  "rows_callback C rows0 shapeDefinition sqlAST w =
     (let w1 = emit (Call_validate rows0) w in
      case validate rows0 of
        Inl e \<Rightarrow> (Inl e, w1)
      | Inr rows \<Rightarrow>
          (case debug_rows rows of
             Inl e \<Rightarrow> (Inl e, w1)
           | Inr u \<Rightarrow>
               (let w2 = emit (Call_nest rows) w1 in
                case nest C rows shapeDefinition of
                  Inl e \<Rightarrow> (Inl e, w2)
                | Inr nested \<Rightarrow> (postProcess C nested sqlAST, emit (Call_postProcess nested) w2))))"

text \<open>
  \<^verbatim>\<open>
  function handleUserDbCall(dbCall, sql, shapeDefinition, sqlAST) {
    if (dbCall.length === 2) {
      return new Promise((resolve, reject) => {
        dbCall(sql, (err, rows) => {
          if (err) { reject(err) }
          else { ...rows callback...; resolve(postProcess(nested, sqlAST)) }
        })
      })
    }
    const result = dbCall(sql)
    if (typeof result.then === 'function') {
      return result.then(rows => { ...rows callback...; return postProcess(nested, sqlAST) })
    } else {
      return Promise.resolve(nest(validate(result), shapeDefinition))
    }
  }
  \<close>
  In callback mode a throw inside the promise's executor rejects the promise; a throw
  inside \<open>done\<close> reaches the executor when \<open>done\<close> runs before \<open>dbCall\<close> returns,
  and is an uncaught exception of the later task otherwise (the promise then never
  settles). Outside callback mode a throw of \<open>dbCall\<close>, of \<open>result.then\<close> on
  \<open>null\<close> or \<open>undefined\<close>, of \<open>validate\<close> or of \<open>nest\<close> leaves
  \<open>handleUserDbCall\<close> as a throw; a throw inside the \<open>then\<close> callback rejects the
  promise \<open>then\<close> returned.
\<close>

definition handleUserDbCall ::
  "collaborators \<Rightarrow> dbCall \<Rightarrow> string \<Rightarrow> jsval \<Rightarrow> jsval \<Rightarrow> world \<Rightarrow> outcome \<times> world" where
  "handleUserDbCall C db sql shapeDefinition sqlAST w =
     (let w1 = emit (Call_dbCall sql) w in
      if arity db = 2 then
        (case with_done db sql of
           ThrowsFirst e \<Rightarrow> (Returns (Rejects e), w1)
         | DoneNever \<Rightarrow> (Returns NeverSettles, w1)
         | DoneNow err rows \<Rightarrow>
             if truthy err then (Returns (Rejects err), w1)
             else (case rows_callback C rows shapeDefinition sqlAST w1 of
                     (Inl e, w2) \<Rightarrow> (Returns (Rejects e), w2)
                   | (Inr v, w2) \<Rightarrow> (Returns (resolve_with v), w2))
         | DoneLater err rows \<Rightarrow>
             if truthy err then (Returns (Rejects err), w1)
             else (case rows_callback C rows shapeDefinition sqlAST w1 of
                     (Inl e, w2) \<Rightarrow> (Returns NeverSettles, emit (Uncaught e) w2)
                   | (Inr v, w2) \<Rightarrow> (Returns (resolve_with v), w2)))
      else
        (case without_done db sql of
           Inl e \<Rightarrow> (Throws e, w1)
         | Inr result \<Rightarrow>
             if nullish result then (Throws (TypeError ''Cannot read property then of undefined''), w1)
             else if thenable result then
               (case promise_state result of
                  Fulfils rows \<Rightarrow>
                    (case rows_callback C rows shapeDefinition sqlAST w1 of
                       (Inl e, w2) \<Rightarrow> (Returns (Rejects e), w2)
                     | (Inr v, w2) \<Rightarrow> (Returns (resolve_with v), w2))
                | Rejects e \<Rightarrow> (Returns (Rejects e), w1)
                | NeverSettles \<Rightarrow> (Returns NeverSettles, w1))
             else
               (let w2 = emit (Call_validate result) w1 in
                case validate result of
                  Inl e \<Rightarrow> (Throws e, w2)
                | Inr rows \<Rightarrow>
                    (let w3 = emit (Call_nest rows) w2 in
                     case nest C rows shapeDefinition of
                       Inl e \<Rightarrow> (Throws e, w3)
                     | Inr nested \<Rightarrow> (Returns (resolve_with nested), w3)))))"

section \<open>joinMonster and getNode\<close>

text \<open>
  \<^verbatim>\<open>
  function joinMonster(resolveInfo, context, dbCall, options = {}) {
    const sqlAST = queryASTToSqlAST(resolveInfo, options)
    const { sql, shapeDefinition } = compileSqlAST(sqlAST, context, options)
    if (!sql) return Promise.resolve({})
    return handleUserDbCall(dbCall, sql, shapeDefinition, sqlAST)
  }
  \<close>
\<close>

definition joinMonster ::
  "collaborators \<Rightarrow> resolveInfo \<Rightarrow> jsval \<Rightarrow> dbCall \<Rightarrow> options option \<Rightarrow> world \<Rightarrow> outcome \<times> world" where
  "joinMonster C resolveInfo ctx db options w =
     (let opts = given_or_empty options;
          w1 = emit Call_queryASTToSqlAST w in
      case queryASTToSqlAST C resolveInfo opts of
        Inl e \<Rightarrow> (Throws e, w1)
      | Inr sqlAST \<Rightarrow>
          (case compileSqlAST C sqlAST ctx opts w1 of
             (Inl e, w2) \<Rightarrow> (Throws e, w2)
           | (Inr (sql, shapeDefinition), w2) \<Rightarrow>
               if sql = [] then (Returns (Fulfils (JObject Plain [])), w2)
               else handleUserDbCall C db sql shapeDefinition sqlAST w2))"

text \<open>
  \<^verbatim>\<open>
  function getNode(typeName, resolveInfo, context, where, dbCall, options = {}) {
    const type = resolveInfo.schema.getType(typeName)
    const fakeParentNode = { _fields: { node: { type, name: type.name.toLowerCase(), where } } }
    const namespace = new AliasNamespace(options.minify)
    const sqlAST = {}
    const fieldNodes = resolveInfo.fieldNodes || resolveInfo.fieldASTs
    getGraphQLType(fieldNodes[0], fakeParentNode, sqlAST, resolveInfo.fragments,
                   resolveInfo.variables, namespace, options)
    pruneDuplicateSqlDeps(sqlAST, namespace)
    const { sql, shapeDefinition } = compileSqlAST(sqlAST, context, options)
    return handleUserDbCall(dbCall, sql, shapeDefinition, sqlAST).then(obj => {
      obj.__type__ = type
      return obj
    })
  }
  \<close>
  The first part, up to and with the call of \<open>getGraphQLType\<close>, builds the SQL AST:
  it returns the type, and the addresses of the fresh \<open>sqlAST\<close> and \<open>namespace\<close>
  objects.
\<close>

definition getNode_build ::
  "collaborators \<Rightarrow> string \<Rightarrow> resolveInfo \<Rightarrow> where_fn \<Rightarrow> options \<Rightarrow> world
     \<Rightarrow> (jsval + jsval \<times> nat \<times> nat) \<times> world" where
  "getNode_build C typeName resolveInfo whereFn opts w =
     (let gqlType = schema_getType resolveInfo typeName in
      case lowered_name gqlType of
        Inl e \<Rightarrow> (Inl e, w)
      | Inr name \<Rightarrow>
          (let fakeParent = \<lparr>node_type = gqlType, node_name = name, node_where = whereFn\<rparr>;
               (namespace, w1) = alloc (new_AliasNamespace C (minify opts)) w;
               (sqlAST, w2) = alloc (JObject Plain []) w1;
               nodes = (if truthy (fieldNodes resolveInfo) then fieldNodes resolveInfo
                        else fieldASTs resolveInfo) in
           case index0 nodes of
             Inl e \<Rightarrow> (Inl e, w2)
           | Inr fieldNode \<Rightarrow>
               (let w3 = emit (Call_getGraphQLType sqlAST namespace) w2 in
                case getGraphQLType C fieldNode fakeParent (fragments resolveInfo)
                       (variables resolveInfo) opts (deref w3 sqlAST, deref w3 namespace) of
                  Inl e \<Rightarrow> (Inl e, w3)
                | Inr (ast', ns') \<Rightarrow>
                    (Inr (gqlType, sqlAST, namespace), store namespace ns' (store sqlAST ast' w3)))))"

text \<open>The \<open>then\<close> callback of \<open>getNode\<close> on the promise of \<open>handleUserDbCall\<close>.\<close>

definition then_set_type :: "jsval \<Rightarrow> jsval settle \<Rightarrow> jsval settle" where
  "then_set_type gqlType p =
     (case p of
        Fulfils obj \<Rightarrow>
          (case set_prop obj ''__type__'' gqlType of
             Inl e \<Rightarrow> Rejects e
           | Inr obj' \<Rightarrow> resolve_with obj')
      | Rejects e \<Rightarrow> Rejects e
      | NeverSettles \<Rightarrow> NeverSettles)"

definition getNode ::
  "collaborators \<Rightarrow> string \<Rightarrow> resolveInfo \<Rightarrow> jsval \<Rightarrow> where_fn \<Rightarrow> dbCall \<Rightarrow> options option
     \<Rightarrow> world \<Rightarrow> outcome \<times> world" where
  "getNode C typeName resolveInfo ctx whereFn db options w =
     (let opts = given_or_empty options in
      case getNode_build C typeName resolveInfo whereFn opts w of
        (Inl e, w3) \<Rightarrow> (Throws e, w3)
      | (Inr (gqlType, sqlAST, namespace), w3) \<Rightarrow>
          (let w4 = emit (Call_pruneDuplicateSqlDeps sqlAST namespace) w3 in
           case pruneDuplicateSqlDeps C (deref w4 sqlAST, deref w4 namespace) of
             Inl e \<Rightarrow> (Throws e, w4)
           | Inr (ast', ns') \<Rightarrow>
               (let w5 = store namespace ns' (store sqlAST ast' w4) in
                case compileSqlAST C (deref w5 sqlAST) ctx opts w5 of
                  (Inl e, w6) \<Rightarrow> (Throws e, w6)
                | (Inr (sql, shapeDefinition), w6) \<Rightarrow>
                    (case handleUserDbCall C db sql shapeDefinition (deref w6 sqlAST) w6 of
                       (Throws e, w7) \<Rightarrow> (Throws e, w7)
                     | (Returns p, w7) \<Rightarrow> (Returns (then_set_type gqlType p), w7)))))"

section \<open>Reading a run\<close>

text \<open>The calls a run added to the trace of the world it started in.\<close>

definition new_events :: "world \<Rightarrow> world \<Rightarrow> event list" where
  "new_events w w' = drop (length (trace w)) (trace w')"

text \<open>The four steps of a compilation: build, prune, stringify, define the shape.\<close>

fun compile_event :: "event \<Rightarrow> bool" where
  "compile_event (Call_getGraphQLType a n) = True"
| "compile_event (Call_pruneDuplicateSqlDeps a n) = True"
| "compile_event Call_stringify = True"
| "compile_event Call_defineObjectShape = True"
| "compile_event ev = False"

fun is_dbCall :: "event \<Rightarrow> bool" where
  "is_dbCall (Call_dbCall sql) = True"
| "is_dbCall ev = False"

text \<open>
  The supported set, as the documentation of \<open>options.dialect\<close> gives it:
  "Currently \<open>'pg'\<close>, \<open>'mysql'\<close>, and \<open>'standard'\<close> are supported".
\<close>

definition documented_dialects :: "string list" where
  "documented_dialects = [''pg'', ''mysql'', ''standard'']"

text \<open>
  A fact about the installation, not about the supported set: Node resolves
  \<open>./stringifiers/<d>\<close> to a module that has a \<open>default\<close> export. Node resolves more
  than the three names (a file name with its extension, for one).
\<close>

definition resolves_stringifier :: "collaborators \<Rightarrow> string \<Rightarrow> bool" where
  "resolves_stringifier C d =
     (case modules C (''./stringifiers/'' @ d) of
        None \<Rightarrow> False
      | Some m \<Rightarrow> default_export m \<noteq> None)"

text \<open>
  A value validation accepts, and the rows it stands for: an array (itself), or a
  truthy value whose \<open>rows\<close> property is truthy (that property).
\<close>

definition acceptable :: "jsval \<Rightarrow> bool" where
  "acceptable v = (isArray v \<or> (truthy v \<and> truthy (own_prop v ''rows'')))"

definition rows_of :: "jsval \<Rightarrow> jsval" where
  "rows_of v = (if isArray v then v else own_prop v ''rows'')"

section \<open>Example inputs\<close>

text \<open>
  A small installation: stringifiers for \<open>standard\<close> and \<open>pg\<close>, a helper module
  \<open>shared\<close> without a default export. The stringifier throws what a condition
  generator would throw when the context carries \<open>denied\<close>. Hydration here keeps the
  rows as they are; post-processing wraps them.
\<close>

definition example_stringify :: stringifier where
  "example_stringify sqlAST ctx =
     (if truthy (own_prop ctx ''denied'') then Inl (JStr ''not authorized'')
      else Inr ''SELECT a.id FROM accounts a'')"

definition example_modules :: "string \<Rightarrow> jsmodule option" where
  "example_modules path =
     (if path = ''./stringifiers/standard'' \<or> path = ''./stringifiers/pg''
      then Some \<lparr>default_export = Some example_stringify\<rparr>
      else if path = ''./stringifiers/shared'' then Some \<lparr>default_export = None\<rparr>
      else None)"

definition example_C :: collaborators where
  "example_C =
     \<lparr>modules = example_modules,
      queryASTToSqlAST = (\<lambda>resolveInfo opts. Inr (JObject Plain [(''table'', JStr ''accounts'')])),
      new_AliasNamespace = (\<lambda>m. JObject Plain [(''minify'', m)]),
      getGraphQLType = (\<lambda>fieldNode parent frags vars opts (ast, ns).
         Inr (JObject Plain [(''table'', JStr (node_name parent))], ns)),
      pruneDuplicateSqlDeps = Inr,
      defineObjectShape = (\<lambda>ast. Inr (JObject Plain [(''id'', JStr ''id'')])),
      nest = (\<lambda>rows shapeDefinition. Inr rows),
      postProcess = (\<lambda>nested ast. Inr (JObject Plain [(''finalized'', nested)]))\<rparr>"

definition example_resolveInfo :: resolveInfo where
  "example_resolveInfo =
     \<lparr>schema_getType = (\<lambda>n. if n = ''User'' then JObject Plain [(''name'', JStr ''User'')]
                              else JUndefined),
      fieldNodes = JObject (Array [JObject Plain [(''kind'', JStr ''Field'')]]) [],
      fieldASTs = JUndefined,
      fragments = JObject Plain [],
      variables = JObject Plain []\<rparr>"

definition example_where :: where_fn where
  "example_where tableAlias args ctx = Inr (tableAlias @ ''.id = 1'')"

definition example_rows :: jsval where
  "example_rows = JObject (Array [JObject Plain [(''id'', JNum 1)]]) []"

definition example_shape :: jsval where
  "example_shape = JObject Plain [(''id'', JStr ''id'')]"

definition example_ast :: jsval where
  "example_ast = JObject Plain [(''table'', JStr ''accounts'')]"

text \<open>
  Three transports, one per calling convention, each handing over \<open>v\<close>: through
  \<open>done(err, v)\<close> from a later task, through a promise fulfilled with \<open>v\<close>, and
  as the return value.
\<close>

definition callback_db :: "jsval \<Rightarrow> jsval \<Rightarrow> dbCall" where
  "callback_db err v =
     \<lparr>arity = 2, with_done = (\<lambda>sql. DoneLater err v), without_done = (\<lambda>sql. Inr JUndefined)\<rparr>"

definition promise_db :: "jsval \<Rightarrow> dbCall" where
  "promise_db v =
     \<lparr>arity = 1, with_done = (\<lambda>sql. DoneNever),
      without_done = (\<lambda>sql. Inr (JObject (Promise (Fulfils v)) []))\<rparr>"

definition direct_db :: "jsval \<Rightarrow> dbCall" where
  "direct_db v =
     \<lparr>arity = 1, with_done = (\<lambda>sql. DoneNever), without_done = (\<lambda>sql. Inr v)\<rparr>"

definition empty_world :: world where
  "empty_world = \<lparr>heap = [], required = [], trace = []\<rparr>"

text \<open>
  Variants: a shape builder that throws, a context under which the stringifier throws,
  options with the empty string as dialect, options with a dialect no module exists
  for; and the type the example schema holds for \<open>User\<close>.
\<close>

definition failing_shape_C :: collaborators where
  "failing_shape_C = example_C\<lparr>defineObjectShape := (\<lambda>ast. Inl (JStr ''no identifier column''))\<rparr>"

definition denied_ctx :: jsval where
  "denied_ctx = JObject Plain [(''denied'', JBool True)]"

definition empty_dialect_options :: options where
  "empty_dialect_options = \<lparr>minify = JUndefined, dialect = Some []\<rparr>"

definition oracle_options :: options where
  "oracle_options = \<lparr>minify = JUndefined, dialect = Some ''oracle''\<rparr>"

definition user_type :: jsval where
  "user_type = JObject Plain [(''name'', JStr ''User'')]"

text \<open>
  An installation with one stringifier file per documented dialect, each with a text of
  its own, resolved by Node under the dialect's name and under the file's name; each
  stringifier renders an SQL AST that carries \<open>pruned\<close> differently from one that does
  not. The pruner of this installation marks the SQL AST it has pruned.
\<close>

definition dialect_stringify :: "string \<Rightarrow> stringifier" where
  "dialect_stringify name sqlAST ctx =
     Inr (name @ (if truthy (own_prop sqlAST ''pruned'') then '': SELECT a.id FROM accounts a''
                  else '': SELECT a.id, a.id FROM accounts a''))"

definition installed_modules :: "string \<Rightarrow> jsmodule option" where
  "installed_modules path =
     (if path = ''./stringifiers/standard'' \<or> path = ''./stringifiers/standard.js''
      then Some \<lparr>default_export = Some (dialect_stringify ''standard'')\<rparr>
      else if path = ''./stringifiers/pg'' \<or> path = ''./stringifiers/pg.js''
      then Some \<lparr>default_export = Some (dialect_stringify ''pg'')\<rparr>
      else if path = ''./stringifiers/mysql'' \<or> path = ''./stringifiers/mysql.js''
      then Some \<lparr>default_export = Some (dialect_stringify ''mysql'')\<rparr>
      else None)"

definition installed_C :: collaborators where
  "installed_C =
     example_C\<lparr>modules := installed_modules,
               pruneDuplicateSqlDeps := (\<lambda>(ast, ns). Inr (JObject Plain [(''pruned'', JBool True)], ns))\<rparr>"

definition filename_options :: options where
  "filename_options = \<lparr>minify = JUndefined, dialect = Some ''standard.js''\<rparr>"

definition pg_options :: options where
  "pg_options = \<lparr>minify = JUndefined, dialect = Some ''pg''\<rparr>"

section \<open>How a call changes the world\<close>

text \<open>
  Each operation returns a result that does not depend on the world it starts in, and
  leaves the world it started in with more trace, possibly one more module in the cache
  and, for \<open>getNode\<close>, new objects behind the ones that were there.
\<close>

lemma trace_emit [simp]: "trace (emit e w) = trace w @ [e]"
  by (simp add: emit_def)

lemma heap_emit [simp]: "heap (emit e w) = heap w"
  by (simp add: emit_def)

lemma heap_store [simp]: "heap (store a v w) = (heap w)[a := v]"
  by (simp add: store_def)

lemma trace_store [simp]: "trace (store a v w) = trace w"
  by (simp add: store_def)



lemma rows_callback_run:
  "\<exists>r evs. (\<forall>w. rows_callback C rows shape ast w = (r, w\<lparr>trace := trace w @ evs\<rparr>)) \<and>
     filter compile_event evs = [] \<and> filter is_dbCall evs = []"
proof (cases "validate rows")
  case (Inl e)
  then show ?thesis
    by (intro exI[of _ "Inl e"] exI[of _ "[Call_validate rows]"])
       (simp add: rows_callback_def emit_def)
next
  case valid: (Inr rows')
  show ?thesis
  proof (cases "debug_rows rows'")
    case (Inl e)
    with valid show ?thesis
      by (intro exI[of _ "Inl e"] exI[of _ "[Call_validate rows]"])
         (simp add: rows_callback_def emit_def)
  next
    case dbg: (Inr u)
    show ?thesis
    proof (cases "nest C rows' shape")
      case (Inl e)
      with valid dbg show ?thesis
        by (intro exI[of _ "Inl e"] exI[of _ "[Call_validate rows, Call_nest rows']"])
           (simp add: rows_callback_def emit_def)
    next
      case (Inr nested)
      with valid dbg show ?thesis
        by (intro exI[of _ "postProcess C nested ast"]
              exI[of _ "[Call_validate rows, Call_nest rows', Call_postProcess nested]"])
           (simp add: rows_callback_def emit_def)
    qed
  qed
qed

lemma compile_run:
  "\<exists>r evs g. (\<forall>w. compileSqlAST C ast ctx opts w =
       (r, w\<lparr>required := g (required w), trace := trace w @ evs\<rparr>)) \<and>
     (filter compile_event evs = [] \<or> filter compile_event evs = [Call_stringify] \<or>
      filter compile_event evs = [Call_stringify, Call_defineObjectShape]) \<and>
     filter is_dbCall evs = []"
proof -
  define path where "path = ''./stringifiers/'' @ dialect_or_standard opts"
  show ?thesis
  proof (cases "modules C path")
    case None
    then show ?thesis
      by (intro exI[of _ "Inl (module_not_found path)"] exI[of _ "[Call_require path]"]
            exI[of _ "\<lambda>ps. ps"])
         (simp add: compileSqlAST_def require_def emit_def path_def)
  next
    case found: (Some m)
    show ?thesis
    proof (cases "default_export m")
      case None
      with found show ?thesis
        by (intro exI[of _ "Inl (TypeError ''stringify is not a function'')"]
              exI[of _ "[Call_require path]"] exI[of _ "List.insert path"])
           (simp add: compileSqlAST_def require_def emit_def path_def)
    next
      case callable: (Some stringify)
      show ?thesis
      proof (cases "stringify ast ctx")
        case (Inl e)
        with found callable show ?thesis
          by (intro exI[of _ "Inl e"] exI[of _ "[Call_require path, Call_stringify]"]
                exI[of _ "List.insert path"])
             (simp add: compileSqlAST_def require_def emit_def path_def)
      next
        case sqltext: (Inr sql)
        show ?thesis
        proof (cases "defineObjectShape C ast")
          case (Inl e)
          with found callable sqltext show ?thesis
            by (intro exI[of _ "Inl e"]
                  exI[of _ "[Call_require path, Call_stringify, Call_defineObjectShape]"]
                  exI[of _ "List.insert path"])
               (simp add: compileSqlAST_def require_def emit_def path_def)
        next
          case (Inr shapeDefinition)
          with found callable sqltext show ?thesis
            by (intro exI[of _ "Inr (sql, shapeDefinition)"]
                  exI[of _ "[Call_require path, Call_stringify, Call_defineObjectShape]"]
                  exI[of _ "List.insert path"])
               (simp add: compileSqlAST_def require_def emit_def path_def)
        qed
      qed
    qed
  qed
qed

lemma handle_run:
  "\<exists>r evs. (\<forall>w. handleUserDbCall C db sql shape ast w = (r, w\<lparr>trace := trace w @ evs\<rparr>)) \<and>
     filter compile_event evs = [] \<and> filter is_dbCall evs = [Call_dbCall sql]"
proof -
  have cb: "\<exists>r evs. (\<forall>w. rows_callback C rows shape ast (emit (Call_dbCall sql) w) =
        (r, w\<lparr>trace := trace w @ Call_dbCall sql # evs\<rparr>)) \<and> filter compile_event evs = [] \<and>
        filter is_dbCall evs = []" for rows
    using rows_callback_run[of C rows shape ast] by (auto simp: emit_def)
  show ?thesis
  proof (cases "arity db = 2")
    case True
    show ?thesis
    proof (cases "with_done db sql")
      case (ThrowsFirst e)
      with True show ?thesis
        by (intro exI[of _ "Returns (Rejects e)"] exI[of _ "[Call_dbCall sql]"])
           (simp add: handleUserDbCall_def emit_def)
    next
      case DoneNever
      with True show ?thesis
        by (intro exI[of _ "Returns NeverSettles"] exI[of _ "[Call_dbCall sql]"])
           (simp add: handleUserDbCall_def emit_def)
    next
      case (DoneNow err rows)
      obtain r evs where r: "\<And>w. rows_callback C rows shape ast (emit (Call_dbCall sql) w) =
        (r, w\<lparr>trace := trace w @ Call_dbCall sql # evs\<rparr>)" and e: "filter compile_event evs = []" "filter is_dbCall evs = []"
        using cb[of rows] by blast
      show ?thesis
      proof (cases "truthy err")
        case True
        with \<open>arity db = 2\<close> DoneNow show ?thesis
          by (intro exI[of _ "Returns (Rejects err)"] exI[of _ "[Call_dbCall sql]"])
             (simp add: handleUserDbCall_def emit_def)
      next
        case False
        with \<open>arity db = 2\<close> DoneNow r e show ?thesis
          by (intro exI[of _ "case r of Inl e \<Rightarrow> Returns (Rejects e) | Inr v \<Rightarrow> Returns (resolve_with v)"]
                exI[of _ "Call_dbCall sql # evs"])
             (simp add: handleUserDbCall_def split: sum.splits)
      qed
    next
      case (DoneLater err rows)
      obtain r evs where r: "\<And>w. rows_callback C rows shape ast (emit (Call_dbCall sql) w) =
        (r, w\<lparr>trace := trace w @ Call_dbCall sql # evs\<rparr>)" and e: "filter compile_event evs = []" "filter is_dbCall evs = []"
        using cb[of rows] by blast
      show ?thesis
      proof (cases "truthy err")
        case True
        with \<open>arity db = 2\<close> DoneLater show ?thesis
          by (intro exI[of _ "Returns (Rejects err)"] exI[of _ "[Call_dbCall sql]"])
             (simp add: handleUserDbCall_def emit_def)
      next
        case False
        with \<open>arity db = 2\<close> DoneLater r e show ?thesis
          by (intro exI[of _ "case r of Inl e \<Rightarrow> Returns NeverSettles | Inr v \<Rightarrow> Returns (resolve_with v)"]
                exI[of _ "Call_dbCall sql # evs @ (case r of Inl e \<Rightarrow> [Uncaught e] | Inr v \<Rightarrow> [])"])
             (simp add: handleUserDbCall_def emit_def split: sum.splits)
      qed
    qed
  next
    case direct: False
    show ?thesis
    proof (cases "without_done db sql")
      case (Inl e)
      with direct show ?thesis
        by (intro exI[of _ "Throws e"] exI[of _ "[Call_dbCall sql]"])
           (simp add: handleUserDbCall_def emit_def)
    next
      case ret: (Inr result)
      show ?thesis
      proof (cases "nullish result")
        case True
        with direct ret show ?thesis
          by (intro exI[of _ "Throws (TypeError ''Cannot read property then of undefined'')"]
                exI[of _ "[Call_dbCall sql]"])
             (simp add: handleUserDbCall_def emit_def)
      next
        case defined: False
        show ?thesis
        proof (cases "thenable result")
          case True
          show ?thesis
          proof (cases "promise_state result")
            case (Fulfils rows)
            obtain r evs where r: "\<And>w. rows_callback C rows shape ast (emit (Call_dbCall sql) w) =
                (r, w\<lparr>trace := trace w @ Call_dbCall sql # evs\<rparr>)"
              and e: "filter compile_event evs = []" "filter is_dbCall evs = []"
              using cb[of rows] by blast
            with direct ret defined True Fulfils show ?thesis
              by (intro exI[of _ "case r of Inl e \<Rightarrow> Returns (Rejects e) | Inr v \<Rightarrow> Returns (resolve_with v)"]
                    exI[of _ "Call_dbCall sql # evs"])
                 (simp add: handleUserDbCall_def split: sum.splits)
          next
            case (Rejects e)
            with direct ret defined True show ?thesis
              by (intro exI[of _ "Returns (Rejects e)"] exI[of _ "[Call_dbCall sql]"])
                 (simp add: handleUserDbCall_def emit_def)
          next
            case NeverSettles
            with direct ret defined True show ?thesis
              by (intro exI[of _ "Returns NeverSettles"] exI[of _ "[Call_dbCall sql]"])
                 (simp add: handleUserDbCall_def emit_def)
          qed
        next
          case plain: False
          show ?thesis
          proof (cases "validate result")
            case (Inl e)
            with direct ret defined plain show ?thesis
              by (intro exI[of _ "Throws e"] exI[of _ "[Call_dbCall sql, Call_validate result]"])
                 (simp add: handleUserDbCall_def emit_def)
          next
            case valid: (Inr rows)
            with direct ret defined plain show ?thesis
              by (intro exI[of _ "case nest C rows shape of Inl e \<Rightarrow> Throws e | Inr nested \<Rightarrow> Returns (resolve_with nested)"]
                    exI[of _ "[Call_dbCall sql, Call_validate result, Call_nest rows]"])
                 (simp add: handleUserDbCall_def emit_def split: sum.splits)
          qed
        qed
      qed
    qed
  qed
qed

lemma deref_simps [simp]:
  "deref (w\<lparr>trace := t\<rparr>) a = deref w a"
  "deref (w\<lparr>required := r\<rparr>) a = deref w a"
  "deref (emit e w) a = deref w a"
  by (simp_all add: deref_def emit_def)

lemma deref_fresh [simp]:
  "deref (w\<lparr>heap := heap w @ [v1, v2]\<rparr>) (length (heap w)) = v1"
  "deref (w\<lparr>heap := heap w @ [v1, v2]\<rparr>) (Suc (length (heap w))) = v2"
  by (simp_all add: deref_def nth_append)

lemma getNode_build_fails:
  assumes "fst (getNode_build C tn ri whr opts w0) = Inl e"
  shows "\<exists>cells evs.
      (\<forall>w. getNode_build C tn ri whr opts w =
         (Inl e, w\<lparr>heap := heap w @ cells, trace := trace w @ evs (length (heap w))\<rparr>)) \<and>
      ((\<forall>n. evs n = []) \<or> (\<forall>n. evs n = [Call_getGraphQLType (Suc n) n]))"
proof -
  define gqlType where "gqlType = schema_getType ri tn"
  define ns0 where "ns0 = new_AliasNamespace C (minify opts)"
  define nodes where "nodes = (if truthy (fieldNodes ri) then fieldNodes ri else fieldASTs ri)"
  show ?thesis
  proof (cases "lowered_name gqlType")
    case (Inl e')
    with assms show ?thesis
      by (intro exI[of _ "[]"] exI[of _ "\<lambda>n. []"])
         (simp add: getNode_build_def gqlType_def)
  next
    case named: (Inr name)
    show ?thesis
    proof (cases "index0 nodes")
      case (Inl e')
      with named assms show ?thesis
        by (intro exI[of _ "[ns0, JObject Plain []]"] exI[of _ "\<lambda>n. []"])
           (simp add: getNode_build_def gqlType_def nodes_def ns0_def alloc_def)
    next
      case node: (Inr fieldNode)
      define built where "built = getGraphQLType C fieldNode
          \<lparr>node_type = gqlType, node_name = name, node_where = whr\<rparr>
          (fragments ri) (variables ri) opts (JObject Plain [], ns0)"
      show ?thesis
      proof (cases built)
        case (Inl e')
        with named node assms show ?thesis
          by (intro exI[of _ "[ns0, JObject Plain []]"]
                exI[of _ "\<lambda>n. [Call_getGraphQLType (Suc n) n]"])
             (simp add: getNode_build_def gqlType_def nodes_def ns0_def alloc_def built_def
                deref_def nth_append emit_def)
      next
        case (Inr st)
        obtain ast' ns' where st: "st = (ast', ns')" by (cases st)
        with Inr named node assms show ?thesis
          by (simp add: getNode_build_def gqlType_def nodes_def ns0_def alloc_def built_def
                deref_def nth_append emit_def store_def list_update_append)
      qed
    qed
  qed
qed

lemma getNode_build_succeeds:
  assumes "fst (getNode_build C tn ri whr opts w0) = Inr (t, a, n)"
  shows "\<exists>ns' ast'.
      (\<forall>w. getNode_build C tn ri whr opts w =
         (Inr (t, Suc (length (heap w)), length (heap w)),
          w\<lparr>heap := heap w @ [ns', ast'],
            trace := trace w @ [Call_getGraphQLType (Suc (length (heap w))) (length (heap w))]\<rparr>))
      \<and> a = Suc (length (heap w0)) \<and> n = length (heap w0)"
proof -
  define gqlType where "gqlType = schema_getType ri tn"
  define ns0 where "ns0 = new_AliasNamespace C (minify opts)"
  define nodes where "nodes = (if truthy (fieldNodes ri) then fieldNodes ri else fieldASTs ri)"
  show ?thesis
  proof (cases "lowered_name gqlType")
    case (Inl e')
    with assms show ?thesis
      by (simp add: getNode_build_def gqlType_def)
  next
    case named: (Inr name)
    show ?thesis
    proof (cases "index0 nodes")
      case (Inl e')
      with named assms show ?thesis
        by (simp add: getNode_build_def gqlType_def nodes_def ns0_def alloc_def)
    next
      case node: (Inr fieldNode)
      define built where "built = getGraphQLType C fieldNode
          \<lparr>node_type = gqlType, node_name = name, node_where = whr\<rparr>
          (fragments ri) (variables ri) opts (JObject Plain [], ns0)"
      show ?thesis
      proof (cases built)
        case (Inl e')
        with named node assms show ?thesis
          by (simp add: getNode_build_def gqlType_def nodes_def ns0_def alloc_def built_def
                deref_def nth_append emit_def)
      next
        case (Inr st)
        obtain ast' ns' where st: "st = (ast', ns')" by (cases st)
        with Inr named node assms show ?thesis
          by (intro exI[of _ "ns'"] exI[of _ "ast'"])
             (simp add: getNode_build_def gqlType_def nodes_def ns0_def alloc_def built_def
                deref_def nth_append emit_def store_def list_update_append)
      qed
    qed
  qed
qed


lemma getNode_when_build_fails:
  assumes "fst (getNode_build C tn ri whr (given_or_empty options) w0) = Inl e"
  shows "\<exists>cells evs.
      (\<forall>w. getNode C tn ri ctx whr db options w =
         (Throws e, w\<lparr>heap := heap w @ cells, trace := trace w @ evs (length (heap w))\<rparr>)) \<and>
      ((\<forall>n. evs n = []) \<or> (\<forall>n. evs n = [Call_getGraphQLType (Suc n) n]))"
proof -
  obtain cells evs where
    build: "\<And>w. getNode_build C tn ri whr (given_or_empty options) w =
         (Inl e, w\<lparr>heap := heap w @ cells, trace := trace w @ evs (length (heap w))\<rparr>)"
    and evs: "(\<forall>n. evs n = []) \<or> (\<forall>n. evs n = [Call_getGraphQLType (Suc n) n])"
    using getNode_build_fails[OF assms] by blast
  show ?thesis
    using evs
    by (intro exI[of _ cells] exI[of _ evs])
       (simp add: getNode_def build given_or_empty_def[symmetric])
qed

lemma getNode_when_build_succeeds:
  assumes "fst (getNode_build C tn ri whr (given_or_empty options) w0) = Inr (t, a, n)"
  shows "\<exists>r cells rest g.
      (\<forall>w. getNode C tn ri ctx whr db options w =
         (r, w\<lparr>heap := heap w @ cells, required := g (required w),
               trace := trace w @
                 [Call_getGraphQLType (Suc (length (heap w))) (length (heap w)),
                  Call_pruneDuplicateSqlDeps (Suc (length (heap w))) (length (heap w))] @ rest\<rparr>)) \<and>
      (filter compile_event rest = [] \<or> filter compile_event rest = [Call_stringify] \<or>
       filter compile_event rest = [Call_stringify, Call_defineObjectShape])"
proof -
  obtain ns1 ast1 where
    build: "\<And>w. getNode_build C tn ri whr (given_or_empty options) w =
         (Inr (t, Suc (length (heap w)), length (heap w)),
          w\<lparr>heap := heap w @ [ns1, ast1],
            trace := trace w @ [Call_getGraphQLType (Suc (length (heap w))) (length (heap w))]\<rparr>)"
    using getNode_build_succeeds[OF assms] by blast
  show ?thesis
  proof (cases "pruneDuplicateSqlDeps C (ast1, ns1)")
    case (Inl e)
    then show ?thesis
      by (intro exI[of _ "Throws e"] exI[of _ "[ns1, ast1]"] exI[of _ "[]"] exI[of _ "\<lambda>ps. ps"])
         (simp add: getNode_def build deref_def nth_append emit_def)
  next
    case (Inr st)
    obtain ast2 ns2 where st: "st = (ast2, ns2)" by (cases st)
    obtain rc evc g where
      compile: "\<And>w. compileSqlAST C ast2 ctx (given_or_empty options) w =
           (rc, w\<lparr>required := g (required w), trace := trace w @ evc\<rparr>)"
      and evc: "filter compile_event evc = [] \<or> filter compile_event evc = [Call_stringify] \<or>
           filter compile_event evc = [Call_stringify, Call_defineObjectShape]"
      using compile_run[of C ast2 ctx "given_or_empty options"] by blast
    show ?thesis
    proof (cases rc)
      case (Inl e)
      with Inr st compile evc show ?thesis
        by (intro exI[of _ "Throws e"] exI[of _ "[ns2, ast2]"] exI[of _ evc] exI[of _ g])
           (simp add: getNode_def build deref_def nth_append emit_def store_def list_update_append)
    next
      case compiled: (Inr out)
      obtain sql shapeDefinition where out: "out = (sql, shapeDefinition)" by (cases out)
      obtain rh evh where
        handle: "\<And>w. handleUserDbCall C db sql shapeDefinition ast2 w =
             (rh, w\<lparr>trace := trace w @ evh\<rparr>)"
        and evh: "filter compile_event evh = []"
        using handle_run[of C db sql shapeDefinition ast2] by blast
      from Inr st compile evc compiled out handle evh show ?thesis
        by (intro exI[of _ "case rh of Throws e \<Rightarrow> Throws e | Returns p \<Rightarrow> Returns (then_set_type t p)"]
              exI[of _ "[ns2, ast2]"] exI[of _ "evc @ evh"] exI[of _ g])
           (simp add: getNode_def build deref_def nth_append emit_def store_def list_update_append
              split: outcome.splits)
    qed
  qed
qed

lemma new_events_update [simp]:
  "new_events w (w\<lparr>trace := trace w @ evs\<rparr>) = evs"
  "new_events w (w\<lparr>required := r, trace := trace w @ evs\<rparr>) = evs"
  "new_events w (w\<lparr>heap := h, trace := trace w @ evs\<rparr>) = evs"
  "new_events w (w\<lparr>heap := h, required := r, trace := trace w @ evs\<rparr>) = evs"
  by (simp_all add: new_events_def)

lemma new_events_emit [simp]: "new_events w (emit e w) = [e]"
  by (simp add: new_events_def)

lemma joinMonster_run:
  "\<exists>r evs g. \<forall>w. joinMonster C resolveInfo ctx db options w =
      (r, w\<lparr>required := g (required w), trace := trace w @ evs\<rparr>)"
proof (cases "queryASTToSqlAST C resolveInfo (given_or_empty options)")
  case (Inl e)
  then show ?thesis
    by (intro exI[of _ "Throws e"] exI[of _ "[Call_queryASTToSqlAST]"] exI[of _ "\<lambda>ps. ps"])
       (simp add: joinMonster_def emit_def)
next
  case built: (Inr sqlAST)
  obtain rc evc g where
    compile: "\<And>w. compileSqlAST C sqlAST ctx (given_or_empty options) w =
         (rc, w\<lparr>required := g (required w), trace := trace w @ evc\<rparr>)"
    using compile_run[of C sqlAST ctx "given_or_empty options"] by blast
  show ?thesis
  proof (cases rc)
    case (Inl e)
    with built compile show ?thesis
      by (intro exI[of _ "Throws e"] exI[of _ "Call_queryASTToSqlAST # evc"] exI[of _ g])
         (simp add: joinMonster_def emit_def)
  next
    case (Inr out)
    obtain sql shapeDefinition where out: "out = (sql, shapeDefinition)" by (cases out)
    obtain rh evh where
      handle: "\<And>w. handleUserDbCall C db sql shapeDefinition sqlAST w =
           (rh, w\<lparr>trace := trace w @ evh\<rparr>)"
      using handle_run[of C db sql shapeDefinition sqlAST] by blast
    show ?thesis
    proof (cases "sql = []")
      case True
      with built compile Inr out show ?thesis
        by (intro exI[of _ "Returns (Fulfils (JObject Plain []))"]
              exI[of _ "Call_queryASTToSqlAST # evc"] exI[of _ g])
           (simp add: joinMonster_def emit_def)
    next
      case False
      with built compile Inr out handle show ?thesis
        by (intro exI[of _ rh] exI[of _ "Call_queryASTToSqlAST # evc @ evh"] exI[of _ g])
           (simp add: joinMonster_def emit_def)
    qed
  qed
qed

lemma getNode_run:
  "\<exists>r cells k rest g.
      (\<forall>w. getNode C tn ri ctx whr db options w =
         (r, w\<lparr>heap := heap w @ cells, required := g (required w),
               trace := trace w @
                 take k [Call_getGraphQLType (Suc (length (heap w))) (length (heap w)),
                         Call_pruneDuplicateSqlDeps (Suc (length (heap w))) (length (heap w))] @
                 rest\<rparr>)) \<and>
      (\<forall>a n. Call_getGraphQLType a n \<notin> set rest \<and> Call_pruneDuplicateSqlDeps a n \<notin> set rest)"
proof (cases "fst (getNode_build C tn ri whr (given_or_empty options) empty_world)")
  case (Inl e)
  obtain cells evs where
    run: "\<And>w. getNode C tn ri ctx whr db options w =
         (Throws e, w\<lparr>heap := heap w @ cells, trace := trace w @ evs (length (heap w))\<rparr>)"
    and evs: "(\<forall>n. evs n = []) \<or> (\<forall>n. evs n = [Call_getGraphQLType (Suc n) n])"
    using getNode_when_build_fails[OF Inl] by blast
  from evs show ?thesis
  proof
    assume "\<forall>n. evs n = []"
    then show ?thesis
      using run
      by (intro exI[of _ "Throws e"] exI[of _ cells] exI[of _ 0] exI[of _ "[]"] exI[of _ "\<lambda>ps. ps"])
         simp
  next
    assume "\<forall>n. evs n = [Call_getGraphQLType (Suc n) n]"
    then show ?thesis
      using run
      by (intro exI[of _ "Throws e"] exI[of _ cells] exI[of _ 1] exI[of _ "[]"] exI[of _ "\<lambda>ps. ps"])
         simp
  qed
next
  case (Inr x)
  obtain t a n where x: "x = (t, a, n)" by (cases x)
  obtain r cells rest g where
    run: "\<And>w. getNode C tn ri ctx whr db options w =
         (r, w\<lparr>heap := heap w @ cells, required := g (required w),
               trace := trace w @
                 [Call_getGraphQLType (Suc (length (heap w))) (length (heap w)),
                  Call_pruneDuplicateSqlDeps (Suc (length (heap w))) (length (heap w))] @ rest\<rparr>)"
    and rest: "filter compile_event rest = [] \<or> filter compile_event rest = [Call_stringify] \<or>
       filter compile_event rest = [Call_stringify, Call_defineObjectShape]"
    using getNode_when_build_succeeds[OF Inr[unfolded x]] by blast
  have none: "Call_getGraphQLType a n \<notin> set rest \<and> Call_pruneDuplicateSqlDeps a n \<notin> set rest"
    for a n
  proof -
    define steps where "steps = filter compile_event rest"
    with rest have "steps = [] \<or> steps = [Call_stringify] \<or>
        steps = [Call_stringify, Call_defineObjectShape]"
      by simp
    then have "Call_getGraphQLType a n \<notin> set steps \<and> Call_pruneDuplicateSqlDeps a n \<notin> set steps"
      by auto
    then show ?thesis by (simp add: steps_def)
  qed
  show ?thesis
    using run none
    by (intro exI[of _ r] exI[of _ cells] exI[of _ 2] exI[of _ rest] exI[of _ g]) simp
qed

text \<open>
  What \<open>getNode\<close> hands to \<open>getGraphQLType\<close> is the empty object and the namespace
  it has just constructed, whatever the world holds.
\<close>

lemma getNode_build_hands_fresh_objects:
  assumes "lowered_name (schema_getType resolveInfo typeName) = Inr name"
    and "index0 (if truthy (fieldNodes resolveInfo) then fieldNodes resolveInfo
                 else fieldASTs resolveInfo) = Inr fieldNode"
  shows "fst (getNode_build C typeName resolveInfo whereFn opts w) =
     (case getGraphQLType C fieldNode
             \<lparr>node_type = schema_getType resolveInfo typeName, node_name = name,
              node_where = whereFn\<rparr>
             (fragments resolveInfo) (variables resolveInfo) opts
             (JObject Plain [], new_AliasNamespace C (minify opts)) of
        Inl e \<Rightarrow> Inl e
      | Inr st \<Rightarrow> Inr (schema_getType resolveInfo typeName, Suc (length (heap w)), length (heap w)))"
  using assms
  by (simp add: getNode_build_def alloc_def deref_def nth_append emit_def split: sum.splits)

section \<open>The example run\<close>

lemma example_build:
  "getNode_build example_C ''User'' example_resolveInfo example_where empty_options empty_world =
     (Inr (user_type, 1, 0),
      \<lparr>heap = [JObject Plain [(''minify'', JUndefined)], JObject Plain [(''table'', JStr ''user'')]],
       required = [], trace = [Call_getGraphQLType 1 0]\<rparr>)"
  by (simp add: getNode_build_def example_resolveInfo_def lowered_name_def toLowerCase_def
      lower_char_def example_C_def alloc_def empty_options_def empty_world_def emit_def
      deref_def store_def user_type_def)

lemma example_getNode:
  "getNode example_C ''User'' example_resolveInfo JNull example_where (promise_db example_rows)
     None empty_world =
   (Returns (Fulfils (JObject Plain [(''finalized'', example_rows), (''__type__'', user_type)])),
    \<lparr>heap = [JObject Plain [(''minify'', JUndefined)], JObject Plain [(''table'', JStr ''user'')]],
     required = [''./stringifiers/standard''],
     trace = [Call_getGraphQLType 1 0, Call_pruneDuplicateSqlDeps 1 0,
              Call_require ''./stringifiers/standard'', Call_stringify, Call_defineObjectShape,
              Call_dbCall ''SELECT a.id FROM accounts a'', Call_validate example_rows,
              Call_nest example_rows, Call_postProcess example_rows]\<rparr>)"
  by (simp add: getNode_def given_or_empty_def example_build)
     (simp add: Let_def example_C_def emit_def deref_def store_def compileSqlAST_def require_def
      dialect_or_standard_def empty_options_def example_modules_def example_stringify_def
      handleUserDbCall_def promise_db_def rows_callback_def validate_def example_rows_def
      then_set_type_def)



section \<open>Validation and the three calling conventions\<close>

text \<open>
  Validation accepts exactly the arrays and the truthy values with a truthy \<open>rows\<close>
  property. A value it rejects is never hydrated. The callback and the promise
  convention validate every value they are handed, hydrate what validation returns and
  post-process the result; the direct convention validates and hydrates every value
  that is neither \<open>null\<close> nor \<open>undefined\<close>.
\<close>

lemma validate_accepts_exactly:
  "validate v = (if acceptable v then Inr (rows_of v) else Inl (new_Error v))"
  by (auto simp: validate_def acceptable_def rows_of_def)

lemma thenable_not_nullish: "thenable v \<Longrightarrow> \<not> nullish v"
  by (cases v) auto

lemma rows_callback_rejects_without_hydration:
  assumes "\<not> acceptable v"
  shows "rows_callback C v shapeDefinition sqlAST w = (Inl (new_Error v), emit (Call_validate v) w)"
  using assms by (simp add: rows_callback_def validate_accepts_exactly)

lemma callback_and_promise_validate_every_value:
  assumes "\<not> acceptable v"
  shows "arity db = 2 \<Longrightarrow> with_done db sql = DoneNow err v \<Longrightarrow> \<not> truthy err \<Longrightarrow>
           handleUserDbCall C db sql shapeDefinition sqlAST w =
             (Returns (Rejects (new_Error v)), emit (Call_validate v) (emit (Call_dbCall sql) w))"
    and "arity db = 2 \<Longrightarrow> with_done db sql = DoneLater err v \<Longrightarrow> \<not> truthy err \<Longrightarrow>
           handleUserDbCall C db sql shapeDefinition sqlAST w =
             (Returns NeverSettles,
              emit (Uncaught (new_Error v)) (emit (Call_validate v) (emit (Call_dbCall sql) w)))"
    and "arity db \<noteq> 2 \<Longrightarrow> without_done db sql = Inr p \<Longrightarrow> thenable p \<Longrightarrow>
         promise_state p = Fulfils v \<Longrightarrow>
           handleUserDbCall C db sql shapeDefinition sqlAST w =
             (Returns (Rejects (new_Error v)), emit (Call_validate v) (emit (Call_dbCall sql) w))"
    and "arity db \<noteq> 2 \<Longrightarrow> without_done db sql = Inr v \<Longrightarrow> \<not> nullish v \<Longrightarrow> \<not> thenable v \<Longrightarrow>
           handleUserDbCall C db sql shapeDefinition sqlAST w =
             (Throws (new_Error v), emit (Call_validate v) (emit (Call_dbCall sql) w))"
  using assms
  by (auto simp: handleUserDbCall_def rows_callback_rejects_without_hydration
      validate_accepts_exactly Let_def thenable_not_nullish)

lemma callback_and_promise_hydrate_then_finalize:
  assumes "validate v = Inr rows" and "debug_rows rows = Inr ()"
    and "nest C rows shapeDefinition = Inr nested" and "postProcess C nested sqlAST = Inr out"
  shows "arity db = 2 \<Longrightarrow> \<not> truthy err \<Longrightarrow>
         with_done db sql = DoneNow err v \<or> with_done db sql = DoneLater err v \<Longrightarrow>
           fst (handleUserDbCall C db sql shapeDefinition sqlAST w) = Returns (resolve_with out) \<and>
           new_events w (snd (handleUserDbCall C db sql shapeDefinition sqlAST w)) =
             [Call_dbCall sql, Call_validate v, Call_nest rows, Call_postProcess nested]"
    and "arity db \<noteq> 2 \<Longrightarrow> without_done db sql = Inr p \<Longrightarrow> thenable p \<Longrightarrow>
         promise_state p = Fulfils v \<Longrightarrow>
           fst (handleUserDbCall C db sql shapeDefinition sqlAST w) = Returns (resolve_with out) \<and>
           new_events w (snd (handleUserDbCall C db sql shapeDefinition sqlAST w)) =
             [Call_dbCall sql, Call_validate v, Call_nest rows, Call_postProcess nested]"
  using assms
  by (auto simp: handleUserDbCall_def rows_callback_def Let_def new_events_def thenable_not_nullish)

lemma direct_return_is_hydrated_only:
  assumes "arity db \<noteq> 2" and "without_done db sql = Inr v" and "\<not> nullish v" and "\<not> thenable v"
    and "validate v = Inr rows" and "nest C rows shapeDefinition = Inr nested"
  shows "fst (handleUserDbCall C db sql shapeDefinition sqlAST w) = Returns (resolve_with nested) \<and>
         new_events w (snd (handleUserDbCall C db sql shapeDefinition sqlAST w)) =
           [Call_dbCall sql, Call_validate v, Call_nest rows]"
  using assms
  by (auto simp: handleUserDbCall_def Let_def new_events_def)

section \<open>The claims\<close>

text \<open>
  C1, as stated, fails at two kinds of dialect string outside the supported set. The
  empty string is falsy: the compile step takes it for an absent dialect and compiles
  with \<open>standard\<close>. A string that Node resolves although it is not one of the three
  names, such as the file name \<open>standard.js\<close>, loads that stringifier. In both runs
  SQL text is produced and the transport is invoked with it.
\<close>

theorem unlisted_dialects_compile:
  "dialect empty_dialect_options = Some [] \<and>
   [] \<notin> set documented_dialects \<and>
   fst (compileSqlAST example_C example_ast JNull empty_dialect_options empty_world) =
     Inr (''SELECT a.id FROM accounts a'', example_shape) \<and>
   fst (joinMonster example_C example_resolveInfo JNull (promise_db example_rows)
          (Some empty_dialect_options) empty_world) =
     Returns (Fulfils (JObject Plain [(''finalized'', example_rows)])) \<and>
   filter is_dbCall (trace (snd (joinMonster example_C example_resolveInfo JNull (promise_db example_rows)
          (Some empty_dialect_options) empty_world))) = [Call_dbCall ''SELECT a.id FROM accounts a''] \<and>
   dialect filename_options = Some ''standard.js'' \<and>
   ''standard.js'' \<notin> set documented_dialects \<and>
   fst (compileSqlAST installed_C example_ast JNull filename_options empty_world) =
     Inr (''standard: SELECT a.id, a.id FROM accounts a'', example_shape) \<and>
   filter is_dbCall (trace (snd (joinMonster installed_C example_resolveInfo JNull
          (promise_db example_rows) (Some filename_options) empty_world))) =
     [Call_dbCall ''standard: SELECT a.id, a.id FROM accounts a'']"
  by (simp add: Let_def documented_dialects_def joinMonster_def compileSqlAST_def require_def
        dialect_or_standard_def empty_dialect_options_def filename_options_def given_or_empty_def
        handleUserDbCall_def rows_callback_def validate_def promise_db_def example_rows_def
        example_C_def example_modules_def example_stringify_def example_shape_def example_ast_def
        installed_C_def installed_modules_def dialect_stringify_def empty_world_def emit_def)

text \<open>
  C1, amended. For every compilation call whose \<open>options.dialect\<close> is a non-empty
  string for which Node resolves no stringifier (\<open>require\<close> finds no module under
  \<open>./stringifiers/\<close>, or finds one without a \<open>default\<close> export), the compile step
  raises an error: \<open>compileSqlAST\<close> throws after the one call of \<open>require\<close>,
  \<open>joinMonster\<close> throws (it does not return a promise), and the run of \<open>joinMonster\<close>
  calls neither a stringifier nor the transport. The hypothesis is about the
  installation: \<open>index.js\<close> holds no list of dialects and checks the string against
  none.
\<close>

theorem unresolved_dialect_raises_before_sql:
  assumes "dialect opts = Some d" and "d \<noteq> []" and "\<not> resolves_stringifier C d"
  shows "fst (compileSqlAST C sqlAST ctx opts w) =
           Inl (if modules C (''./stringifiers/'' @ d) = None
                then module_not_found (''./stringifiers/'' @ d)
                else TypeError ''stringify is not a function'') \<and>
         new_events w (snd (compileSqlAST C sqlAST ctx opts w)) = [Call_require (''./stringifiers/'' @ d)] \<and>
         fst (joinMonster C resolveInfo ctx db (Some opts) w) =
           Throws (case queryASTToSqlAST C resolveInfo opts of
                     Inl e \<Rightarrow> e
                   | Inr ast \<Rightarrow>
                       if modules C (''./stringifiers/'' @ d) = None
                       then module_not_found (''./stringifiers/'' @ d)
                       else TypeError ''stringify is not a function'') \<and>
         filter is_dbCall (new_events w (snd (joinMonster C resolveInfo ctx db (Some opts) w))) = [] \<and>
         Call_stringify \<notin> set (new_events w (snd (joinMonster C resolveInfo ctx db (Some opts) w)))"
proof -
  have d: "dialect_or_standard opts = d"
    using assms by (simp add: dialect_or_standard_def)
  show ?thesis
  proof (cases "modules C (''./stringifiers/'' @ d)")
    case None
    then show ?thesis
      by (simp add: joinMonster_def compileSqlAST_def require_def Let_def given_or_empty_def d
          new_events_def emit_def split: sum.splits)
  next
    case (Some m)
    with assms have "default_export m = None"
      by (simp add: resolves_stringifier_def)
    with Some show ?thesis
      by (simp add: joinMonster_def compileSqlAST_def require_def Let_def given_or_empty_def d
          new_events_def emit_def split: sum.splits)
  qed
qed

theorem unresolved_dialect_raises_before_sql_witness:
  "dialect oracle_options = Some ''oracle'' \<and> \<not> resolves_stringifier installed_C ''oracle'' \<and>
   ''oracle'' \<notin> set documented_dialects \<and>
   fst (compileSqlAST installed_C example_ast JNull oracle_options empty_world) =
     Inl (module_not_found ''./stringifiers/oracle'') \<and>
   fst (joinMonster installed_C example_resolveInfo JNull (promise_db example_rows)
          (Some oracle_options) empty_world) = Throws (module_not_found ''./stringifiers/oracle'') \<and>
   filter is_dbCall (new_events empty_world
     (snd (joinMonster installed_C example_resolveInfo JNull (promise_db example_rows)
          (Some oracle_options) empty_world))) = []"
proof -
  have d: "dialect oracle_options = Some ''oracle''"
    by (simp add: oracle_options_def)
  have u: "\<not> resolves_stringifier installed_C ''oracle''"
    by (simp add: resolves_stringifier_def installed_C_def installed_modules_def)
  have l: "''oracle'' \<notin> set documented_dialects"
    by (simp add: documented_dialects_def)
  have c: "fst (compileSqlAST installed_C example_ast JNull oracle_options empty_world) =
     Inl (module_not_found ''./stringifiers/oracle'')"
    by (simp add: Let_def compileSqlAST_def require_def dialect_or_standard_def oracle_options_def
        installed_C_def installed_modules_def)
  have j: "fst (joinMonster installed_C example_resolveInfo JNull (promise_db example_rows)
          (Some oracle_options) empty_world) = Throws (module_not_found ''./stringifiers/oracle'')"
    by (simp add: Let_def joinMonster_def given_or_empty_def compileSqlAST_def require_def
        dialect_or_standard_def oracle_options_def installed_C_def example_C_def
        installed_modules_def)
  show ?thesis
    using unresolved_dialect_raises_before_sql[of oracle_options "''oracle''" installed_C
        example_ast JNull empty_world example_resolveInfo "promise_db example_rows"] d u l c j
    by simp
qed

text \<open>
  C2. The compile step is all-or-nothing: \<open>compileSqlAST\<close> either throws, or returns
  both the SQL text, whole as the stringifier returned it, and the shape definition, as
  \<open>defineObjectShape\<close> returned it. In the witness the stringifier has produced the
  text and the shape builder throws: nothing is returned.
\<close>

theorem compile_all_or_nothing:
  "(\<exists>e. fst (compileSqlAST C sqlAST ctx opts w) = Inl e) \<or>
   (\<exists>m stringify sql shapeDefinition.
      modules C (''./stringifiers/'' @ dialect_or_standard opts) = Some m \<and>
      default_export m = Some stringify \<and>
      stringify sqlAST ctx = Inr sql \<and>
      defineObjectShape C sqlAST = Inr shapeDefinition \<and>
      fst (compileSqlAST C sqlAST ctx opts w) = Inr (sql, shapeDefinition))"
  by (simp add: compileSqlAST_def require_def Let_def split: option.splits sum.splits)

theorem compile_all_or_nothing_witness:
  "fst (compileSqlAST failing_shape_C example_ast JNull empty_options empty_world) =
     Inl (JStr ''no identifier column'') \<and>
   example_stringify example_ast JNull = Inr ''SELECT a.id FROM accounts a''"
proof -
  have run: "fst (compileSqlAST failing_shape_C example_ast JNull empty_options empty_world) =
     Inl (JStr ''no identifier column'')"
    by (simp add: Let_def compileSqlAST_def require_def dialect_or_standard_def empty_options_def
        failing_shape_C_def example_C_def example_modules_def example_stringify_def)
  have sqlok: "example_stringify example_ast JNull = Inr ''SELECT a.id FROM accounts a''"
    by (simp add: example_stringify_def)
  show ?thesis
    using compile_all_or_nothing[of failing_shape_C example_ast JNull empty_options empty_world]
      run sqlok
    by simp
qed

text \<open>
  C3. The code violates it in the third convention. A transport that returns the rows
  directly gets them validated and hydrated, and the hydrated rows are handed to the
  caller as they are: \<open>postProcess\<close> is never called. The same rows through a promise
  or through \<open>done\<close> are post-processed.
\<close>

theorem direct_rows_are_not_post_processed:
  "fst (handleUserDbCall example_C (direct_db example_rows) ''SELECT 1'' example_shape example_ast
          empty_world) = Returns (Fulfils example_rows) \<and>
   trace (snd (handleUserDbCall example_C (direct_db example_rows) ''SELECT 1'' example_shape
          example_ast empty_world)) =
     [Call_dbCall ''SELECT 1'', Call_validate example_rows, Call_nest example_rows] \<and>
   fst (handleUserDbCall example_C (promise_db example_rows) ''SELECT 1'' example_shape example_ast
          empty_world) = Returns (Fulfils (JObject Plain [(''finalized'', example_rows)])) \<and>
   trace (snd (handleUserDbCall example_C (promise_db example_rows) ''SELECT 1'' example_shape
          example_ast empty_world)) =
     [Call_dbCall ''SELECT 1'', Call_validate example_rows, Call_nest example_rows,
      Call_postProcess example_rows] \<and>
   fst (handleUserDbCall example_C (callback_db JNull example_rows) ''SELECT 1'' example_shape
          example_ast empty_world) = Returns (Fulfils (JObject Plain [(''finalized'', example_rows)]))"
  by (simp add: Let_def handleUserDbCall_def rows_callback_def validate_def direct_db_def
      promise_db_def callback_db_def example_rows_def example_C_def emit_def empty_world_def)

text \<open>
  C4. What a stringifier throws (a condition generator's exception surfaces as the
  throw of the stringifier that invoked it) is what \<open>compileSqlAST\<close> throws, the same
  value, after one call of the stringifier and none of the shape builder; and it is
  what \<open>joinMonster\<close> throws, without a call of the transport.
\<close>

theorem generator_error_propagates:
  assumes "modules C (''./stringifiers/'' @ dialect_or_standard opts) = Some m"
    and "default_export m = Some stringify"
    and "stringify sqlAST ctx = Inl e"
  shows "fst (compileSqlAST C sqlAST ctx opts w) = Inl e \<and>
         new_events w (snd (compileSqlAST C sqlAST ctx opts w)) =
           [Call_require (''./stringifiers/'' @ dialect_or_standard opts), Call_stringify] \<and>
         (queryASTToSqlAST C resolveInfo opts = Inr sqlAST \<longrightarrow>
            fst (joinMonster C resolveInfo ctx db (Some opts) w) = Throws e \<and>
            filter is_dbCall (new_events w (snd (joinMonster C resolveInfo ctx db (Some opts) w))) = [])"
  using assms
  by (simp add: joinMonster_def compileSqlAST_def require_def Let_def given_or_empty_def
      new_events_def emit_def)

theorem generator_error_propagates_witness:
  "example_stringify example_ast denied_ctx = Inl (JStr ''not authorized'') \<and>
   fst (compileSqlAST example_C example_ast denied_ctx empty_options empty_world) =
     Inl (JStr ''not authorized'') \<and>
   fst (joinMonster example_C example_resolveInfo denied_ctx (promise_db example_rows)
          (Some empty_options) empty_world) = Throws (JStr ''not authorized'') \<and>
   filter is_dbCall (new_events empty_world
     (snd (joinMonster example_C example_resolveInfo denied_ctx (promise_db example_rows)
          (Some empty_options) empty_world))) = []"
proof -
  have m: "modules example_C (''./stringifiers/'' @ dialect_or_standard empty_options) =
      Some \<lparr>default_export = Some example_stringify\<rparr>"
    by (simp add: example_C_def example_modules_def dialect_or_standard_def empty_options_def)
  have e: "example_stringify example_ast denied_ctx = Inl (JStr ''not authorized'')"
    by (simp add: example_stringify_def denied_ctx_def)
  have q: "queryASTToSqlAST example_C example_resolveInfo empty_options = Inr example_ast"
    by (simp add: example_C_def example_ast_def)
  show ?thesis
    using generator_error_propagates[of example_C empty_options
        "\<lparr>default_export = Some example_stringify\<rparr>" example_stringify example_ast denied_ctx
        "JStr ''not authorized''" empty_world example_resolveInfo "promise_db example_rows"]
      m q e
    by simp
qed

text \<open>
  C6. A compilation does not depend on what ran before it and leaves nothing behind
  that a later one reads. The outcome of \<open>getNode\<close> is the same from every world; the
  objects that existed before the call are unchanged after it; the SQL AST and the
  namespace that \<open>getNode\<close> hands to \<open>getGraphQLType\<close> and
  \<open>pruneDuplicateSqlDeps\<close> are the two objects it has just allocated. The outcome of
  \<open>joinMonster\<close> is the same from every world too, and it allocates and changes no
  object.
\<close>

theorem compilations_are_isolated:
  "fst (getNode C typeName resolveInfo ctx whereFn db options w) =
     fst (getNode C typeName resolveInfo ctx whereFn db options w') \<and>
   take (length (heap w)) (heap (snd (getNode C typeName resolveInfo ctx whereFn db options w))) = heap w \<and>
   (\<forall>a n. Call_getGraphQLType a n \<in>
             set (new_events w (snd (getNode C typeName resolveInfo ctx whereFn db options w))) \<or>
          Call_pruneDuplicateSqlDeps a n \<in>
             set (new_events w (snd (getNode C typeName resolveInfo ctx whereFn db options w)))
      \<longrightarrow> a = Suc (length (heap w)) \<and> n = length (heap w)) \<and>
   fst (joinMonster C resolveInfo ctx db options w) = fst (joinMonster C resolveInfo ctx db options w') \<and>
   heap (snd (joinMonster C resolveInfo ctx db options w)) = heap w"
proof -
  obtain r cells k rest g where
    run: "\<And>w. getNode C typeName resolveInfo ctx whereFn db options w =
         (r, w\<lparr>heap := heap w @ cells, required := g (required w),
               trace := trace w @
                 take k [Call_getGraphQLType (Suc (length (heap w))) (length (heap w)),
                         Call_pruneDuplicateSqlDeps (Suc (length (heap w))) (length (heap w))] @
                 rest\<rparr>)"
    and rest: "\<And>a n. Call_getGraphQLType a n \<notin> set rest \<and> Call_pruneDuplicateSqlDeps a n \<notin> set rest"
    using getNode_run[of C typeName resolveInfo ctx whereFn db options] by blast
  obtain rj evj gj where
    runj: "\<And>w. joinMonster C resolveInfo ctx db options w =
      (rj, w\<lparr>required := gj (required w), trace := trace w @ evj\<rparr>)"
    using joinMonster_run[of C resolveInfo ctx db options] by blast
  have fresh: "a = Suc m \<and> n = m"
    if "Call_getGraphQLType a n \<in> set (take k [Call_getGraphQLType (Suc m) m,
            Call_pruneDuplicateSqlDeps (Suc m) m] @ rest) \<or>
        Call_pruneDuplicateSqlDeps a n \<in> set (take k [Call_getGraphQLType (Suc m) m,
            Call_pruneDuplicateSqlDeps (Suc m) m] @ rest)" for a n m
  proof -
    from that rest[of a n]
    have "Call_getGraphQLType a n \<in> set (take k [Call_getGraphQLType (Suc m) m,
            Call_pruneDuplicateSqlDeps (Suc m) m]) \<or>
        Call_pruneDuplicateSqlDeps a n \<in> set (take k [Call_getGraphQLType (Suc m) m,
            Call_pruneDuplicateSqlDeps (Suc m) m])"
      by auto
    then have "Call_getGraphQLType a n \<in> set [Call_getGraphQLType (Suc m) m,
            Call_pruneDuplicateSqlDeps (Suc m) m] \<or>
        Call_pruneDuplicateSqlDeps a n \<in> set [Call_getGraphQLType (Suc m) m,
            Call_pruneDuplicateSqlDeps (Suc m) m]"
      using set_take_subset by fast
    then show ?thesis by auto
  qed
  show ?thesis
    using fresh by (simp add: run runj new_events_def)
qed

theorem compilations_are_isolated_witness:
  "fst (getNode example_C ''User'' example_resolveInfo JNull example_where (promise_db example_rows) None
          (snd (getNode example_C ''User'' example_resolveInfo JNull example_where
                  (promise_db example_rows) None empty_world))) =
     Returns (Fulfils (JObject Plain [(''finalized'', example_rows), (''__type__'', user_type)])) \<and>
   fst (getNode example_C ''User'' example_resolveInfo JNull example_where (promise_db example_rows) None
          empty_world) =
     Returns (Fulfils (JObject Plain [(''finalized'', example_rows), (''__type__'', user_type)])) \<and>
   heap (snd (getNode example_C ''User'' example_resolveInfo JNull example_where
                  (promise_db example_rows) None empty_world)) =
     [JObject Plain [(''minify'', JUndefined)], JObject Plain [(''table'', JStr ''user'')]]"
  using compilations_are_isolated[of example_C "''User''" example_resolveInfo JNull example_where
      "promise_db example_rows" None
      "snd (getNode example_C ''User'' example_resolveInfo JNull example_where
                  (promise_db example_rows) None empty_world)"
      empty_world]
  by (simp add: example_getNode)



text \<open>
  C8. When \<open>options.dialect\<close> is absent or falsy (the empty string), the compile step
  selects the \<open>standard\<close> stringifier: what it returns is what the \<open>default\<close> export
  of the module \<open>./stringifiers/standard\<close> makes of the SQL AST and the context,
  together with the shape definition (or the throw of \<open>require\<close>, of that export or
  of the shape builder). It is the run of a call that names \<open>standard\<close>, and its first
  call is \<open>require\<close> of that module.
\<close>

theorem missing_dialect_selects_standard:
  assumes "dialect opts = None \<or> dialect opts = Some []"
  shows "fst (compileSqlAST C sqlAST ctx opts w) =
           (case modules C ''./stringifiers/standard'' of
              None \<Rightarrow> Inl (module_not_found ''./stringifiers/standard'')
            | Some m \<Rightarrow>
                (case default_export m of
                   None \<Rightarrow> Inl (TypeError ''stringify is not a function'')
                 | Some stringify \<Rightarrow>
                     (case stringify sqlAST ctx of
                        Inl e \<Rightarrow> Inl e
                      | Inr sql \<Rightarrow>
                          (case defineObjectShape C sqlAST of
                             Inl e \<Rightarrow> Inl e
                           | Inr shapeDefinition \<Rightarrow> Inr (sql, shapeDefinition))))) \<and>
         compileSqlAST C sqlAST ctx opts w =
           compileSqlAST C sqlAST ctx (opts\<lparr>dialect := Some ''standard''\<rparr>) w \<and>
         (\<exists>rest. new_events w (snd (compileSqlAST C sqlAST ctx opts w)) =
            Call_require ''./stringifiers/standard'' # rest)"
proof -
  have d: "dialect_or_standard opts = ''standard''"
    using assms by (auto simp: dialect_or_standard_def)
  have d': "dialect_or_standard (opts\<lparr>dialect := Some ''standard''\<rparr>) = ''standard''"
    by (simp add: dialect_or_standard_def)
  have selected: "fst (compileSqlAST C sqlAST ctx opts w) =
           (case modules C ''./stringifiers/standard'' of
              None \<Rightarrow> Inl (module_not_found ''./stringifiers/standard'')
            | Some m \<Rightarrow>
                (case default_export m of
                   None \<Rightarrow> Inl (TypeError ''stringify is not a function'')
                 | Some stringify \<Rightarrow>
                     (case stringify sqlAST ctx of
                        Inl e \<Rightarrow> Inl e
                      | Inr sql \<Rightarrow>
                          (case defineObjectShape C sqlAST of
                             Inl e \<Rightarrow> Inl e
                           | Inr shapeDefinition \<Rightarrow> Inr (sql, shapeDefinition)))))"
    by (simp add: compileSqlAST_def d require_def Let_def split: option.splits sum.splits)
  have same: "compileSqlAST C sqlAST ctx opts w =
           compileSqlAST C sqlAST ctx (opts\<lparr>dialect := Some ''standard''\<rparr>) w"
    by (simp add: compileSqlAST_def d d')
  have "\<exists>rest. new_events w (snd (compileSqlAST C sqlAST ctx opts w)) =
            Call_require ''./stringifiers/standard'' # rest"
    by (simp add: compileSqlAST_def d require_def new_events_def emit_def Let_def
        split: option.splits sum.splits)
  with selected same show ?thesis by simp
qed

theorem missing_dialect_selects_standard_witness:
  "dialect empty_options = None \<and>
   modules installed_C ''./stringifiers/standard'' =
     Some \<lparr>default_export = Some (dialect_stringify ''standard'')\<rparr> \<and>
   fst (compileSqlAST installed_C example_ast JNull empty_options empty_world) =
     Inr (''standard: SELECT a.id, a.id FROM accounts a'', example_shape) \<and>
   fst (compileSqlAST installed_C example_ast JNull pg_options empty_world) =
     Inr (''pg: SELECT a.id, a.id FROM accounts a'', example_shape) \<and>
   new_events empty_world (snd (compileSqlAST installed_C example_ast JNull empty_options empty_world)) =
     [Call_require ''./stringifiers/standard'', Call_stringify, Call_defineObjectShape]"
proof -
  have m: "modules installed_C ''./stringifiers/standard'' =
     Some \<lparr>default_export = Some (dialect_stringify ''standard'')\<rparr>"
    by (simp add: installed_C_def installed_modules_def)
  have std: "dialect_stringify ''standard'' example_ast JNull =
      Inr ''standard: SELECT a.id, a.id FROM accounts a''"
    by (simp add: dialect_stringify_def example_ast_def)
  have sh: "defineObjectShape installed_C example_ast = Inr example_shape"
    by (simp add: installed_C_def example_C_def example_shape_def)
  have pg: "fst (compileSqlAST installed_C example_ast JNull pg_options empty_world) =
     Inr (''pg: SELECT a.id, a.id FROM accounts a'', example_shape)"
    by (simp add: Let_def compileSqlAST_def require_def dialect_or_standard_def pg_options_def
        installed_C_def example_C_def installed_modules_def dialect_stringify_def
        example_ast_def example_shape_def)
  have ev: "new_events empty_world
      (snd (compileSqlAST installed_C example_ast JNull empty_options empty_world)) =
     [Call_require ''./stringifiers/standard'', Call_stringify, Call_defineObjectShape]"
    by (simp add: Let_def compileSqlAST_def require_def dialect_or_standard_def empty_options_def
        installed_C_def example_C_def installed_modules_def dialect_stringify_def
        new_events_def emit_def empty_world_def)
  have none: "dialect empty_options = None"
    by (simp add: empty_options_def)
  have selected: "fst (compileSqlAST installed_C example_ast JNull empty_options empty_world) =
     Inr (''standard: SELECT a.id, a.id FROM accounts a'', example_shape)"
    using missing_dialect_selects_standard[of empty_options installed_C example_ast JNull
        empty_world, THEN conjunct1] none m std sh
    by simp
  from none m selected pg ev show ?thesis by simp
qed

text \<open>
  C9. The code violates it in the third convention. \<open>validate\<close> rejects
  \<open>undefined\<close> with its \<open>Error\<close>, and so does the promise convention; a transport
  that returns \<open>undefined\<close> directly never reaches \<open>validate\<close>: reading
  \<open>result.then\<close> throws a \<open>TypeError\<close> first.
\<close>

theorem direct_undefined_never_reaches_validation:
  "fst (handleUserDbCall example_C (direct_db JUndefined) ''SELECT 1'' example_shape example_ast
          empty_world) = Throws (TypeError ''Cannot read property then of undefined'') \<and>
   trace (snd (handleUserDbCall example_C (direct_db JUndefined) ''SELECT 1'' example_shape
          example_ast empty_world)) = [Call_dbCall ''SELECT 1''] \<and>
   validate JUndefined = Inl (new_Error JUndefined) \<and>
   TypeError ''Cannot read property then of undefined'' \<noteq> new_Error JUndefined \<and>
   fst (handleUserDbCall example_C (promise_db JUndefined) ''SELECT 1'' example_shape example_ast
          empty_world) = Returns (Rejects (new_Error JUndefined)) \<and>
   trace (snd (handleUserDbCall example_C (promise_db JUndefined) ''SELECT 1'' example_shape
          example_ast empty_world)) = [Call_dbCall ''SELECT 1'', Call_validate JUndefined]"
  by (simp add: Let_def handleUserDbCall_def rows_callback_def validate_def direct_db_def
      promise_db_def emit_def empty_world_def TypeError_def new_Error_def)

text \<open>
  C10. In callback mode, when the transport invokes \<open>done\<close> with a truthy error, the
  promise rejects with exactly that error; the call of the transport is the only call
  made (no validation, no hydration, no post-processing), and the \<open>then\<close> callback of
  \<open>getNode\<close> leaves the rejection as it is.
\<close>

theorem callback_error_rejects_with_it:
  assumes "arity db = 2"
    and "with_done db sql = DoneNow err rows \<or> with_done db sql = DoneLater err rows"
    and "truthy err"
  shows "fst (handleUserDbCall C db sql shapeDefinition sqlAST w) = Returns (Rejects err) \<and>
         new_events w (snd (handleUserDbCall C db sql shapeDefinition sqlAST w)) = [Call_dbCall sql] \<and>
         then_set_type gqlType (Rejects err) = Rejects err"
  using assms by (auto simp: handleUserDbCall_def then_set_type_def)

theorem callback_error_rejects_with_it_witness:
  "arity (callback_db (JStr ''connection lost'') JUndefined) = 2 \<and>
   truthy (JStr ''connection lost'') \<and>
   fst (handleUserDbCall example_C (callback_db (JStr ''connection lost'') JUndefined)
          ''SELECT 1'' example_shape example_ast empty_world) = Returns (Rejects (JStr ''connection lost'')) \<and>
   new_events empty_world (snd (handleUserDbCall example_C (callback_db (JStr ''connection lost'') JUndefined)
          ''SELECT 1'' example_shape example_ast empty_world)) = [Call_dbCall ''SELECT 1'']"
  using callback_error_rejects_with_it[of "callback_db (JStr ''connection lost'') JUndefined"
      "''SELECT 1''" "JStr ''connection lost''" JUndefined example_C example_shape example_ast
      empty_world JNull]
  by (simp add: callback_db_def)

end
